theory Spec2Isabelle
  imports Complex_Main "HOL-Library.Sublist" "HOL-Library.Monad_Syntax" "HOL-Library.Log_Nat"
begin

section \<open>JavaScript values\<close>

text \<open>
  A value of a JSON request body. A JSON number is finite and is kept as the rational it
  denotes. \<open>JObject\<close> stands for any object or array.
\<close>

datatype jsval = JUndefined | JNull | JBool bool | JNum rat | JStr string | JObject

text \<open>The operator \<^verbatim>\<open>!v\<close>.\<close>

fun falsy :: "jsval \<Rightarrow> bool" where
  "falsy JUndefined = True"
| "falsy JNull = True"
| "falsy (JBool b) = (\<not> b)"
| "falsy (JNum n) = (n = 0)"
| "falsy (JStr s) = (s = [])"
| "falsy JObject = False"

section \<open>JavaScript numbers\<close>

text \<open>
  The numbers the policy form computes with are IEEE 754 doubles: a finite double is the
  rational it denotes, beside the two infinities and NaN. The two zeros are not told
  apart; nothing below depends on the sign of a zero.
\<close>

datatype jsnum = Finite rat | PlusInfinity | MinusInfinity | NaN

definition pow2 :: "int \<Rightarrow> rat" where
  "pow2 e = (if 0 \<le> e then 2 ^ nat e else 1 / 2 ^ nat (- e))"

text \<open>The nearest integer, a tie going to the even one.\<close>

definition roundHalfEven :: "rat \<Rightarrow> int" where
  "roundHalfEven y =
     (let f = \<lfloor>y\<rfloor>; r = y - of_int f in
      if r < 1 / 2 then f else if 1 / 2 < r then f + 1 else if even f then f else f + 1)"

text \<open>
  The exponent of the last place of the doubles around \<open>a \<ge> 0\<close>: 52 below the exponent of
  \<open>a\<close>, and never less than -1074, the exponent of the subnormal doubles. The exponent of
  \<open>a\<close> is read off the bit length of \<open>a\<close> scaled by \<open>2 ^ 1074\<close>.
\<close>

definition quantum :: "rat \<Rightarrow> int" where
  "quantum a = max (bitlen \<lfloor>a * 2 ^ 1074\<rfloor> - 1127) (- 1074)"

text \<open>
  The double nearest to a rational (round to nearest, ties to even): what a decimal
  literal denotes, what \<^verbatim>\<open>parseFloat\<close> returns for a decimal string, and the result of an
  arithmetic operation whose exact result is that rational. A magnitude that rounds to
  \<open>2 ^ 1024\<close> or more overflows to an infinity.
\<close>

definition toDouble :: "rat \<Rightarrow> jsnum" where
  "toDouble x =
     (let q = quantum \<bar>x\<bar>; r = of_int (roundHalfEven (\<bar>x\<bar> / pow2 q)) * pow2 q in
      if 2 ^ 1024 \<le> r then (if 0 < x then PlusInfinity else MinusInfinity)
      else Finite (if 0 < x then r else - r))"

text \<open>The operator \<^verbatim>\<open>*\<close>.\<close>

fun js_times :: "jsnum \<Rightarrow> jsnum \<Rightarrow> jsnum" where
  "js_times (Finite a) (Finite b) = toDouble (a * b)"
| "js_times NaN _ = NaN"
| "js_times _ NaN = NaN"
| "js_times (Finite a) PlusInfinity =
     (if a = 0 then NaN else if 0 < a then PlusInfinity else MinusInfinity)"
| "js_times (Finite a) MinusInfinity =
     (if a = 0 then NaN else if 0 < a then MinusInfinity else PlusInfinity)"
| "js_times PlusInfinity (Finite b) =
     (if b = 0 then NaN else if 0 < b then PlusInfinity else MinusInfinity)"
| "js_times MinusInfinity (Finite b) =
     (if b = 0 then NaN else if 0 < b then MinusInfinity else PlusInfinity)"
| "js_times PlusInfinity PlusInfinity = PlusInfinity"
| "js_times MinusInfinity MinusInfinity = PlusInfinity"
| "js_times PlusInfinity MinusInfinity = MinusInfinity"
| "js_times MinusInfinity PlusInfinity = MinusInfinity"

text \<open>The operator \<^verbatim>\<open>+\<close>.\<close>

fun js_plus :: "jsnum \<Rightarrow> jsnum \<Rightarrow> jsnum" where
  "js_plus (Finite a) (Finite b) = toDouble (a + b)"
| "js_plus NaN _ = NaN"
| "js_plus _ NaN = NaN"
| "js_plus PlusInfinity MinusInfinity = NaN"
| "js_plus MinusInfinity PlusInfinity = NaN"
| "js_plus PlusInfinity _ = PlusInfinity"
| "js_plus MinusInfinity _ = MinusInfinity"
| "js_plus (Finite a) PlusInfinity = PlusInfinity"
| "js_plus (Finite a) MinusInfinity = MinusInfinity"

text \<open>The operator \<^verbatim>\<open><\<close>: false whenever an operand is NaN.\<close>

fun js_less :: "jsnum \<Rightarrow> jsnum \<Rightarrow> bool" where
  "js_less (Finite a) (Finite b) = (a < b)"
| "js_less NaN _ = False"
| "js_less _ NaN = False"
| "js_less (Finite a) PlusInfinity = True"
| "js_less (Finite a) MinusInfinity = False"
| "js_less PlusInfinity _ = False"
| "js_less MinusInfinity (Finite b) = True"
| "js_less MinusInfinity PlusInfinity = True"
| "js_less MinusInfinity MinusInfinity = False"

text \<open>
  \<^verbatim>\<open>Math.round\<close>: the nearest integer, a value halfway between two integers going up;
  the infinities and NaN are returned as they are. The integer is a double again.
\<close>

fun Math_round :: "jsnum \<Rightarrow> jsnum" where
  "Math_round (Finite x) = Finite (of_int \<lfloor>x + 1 / 2\<rfloor>)"
| "Math_round PlusInfinity = PlusInfinity"
| "Math_round MinusInfinity = MinusInfinity"
| "Math_round NaN = NaN"

text \<open>A number is truthy unless it is zero or NaN.\<close>

fun truthy :: "jsnum \<Rightarrow> bool" where
  "truthy (Finite x) = (x \<noteq> 0)"
| "truthy NaN = False"
| "truthy _ = True"

text \<open>The integer part of a finite number, as ToIntegerOrInfinity takes it.\<close>

definition integerPart :: "rat \<Rightarrow> int" where
  "integerPart x = (if 0 \<le> x then \<lfloor>x\<rfloor> else \<lceil>x\<rceil>)"

section \<open>The policy form (components/policy-form/policy-form.tsx)\<close>

text \<open>
  A calendar date is a triple (year, month 1..12, day). The form keeps a date as a string:
  the empty string, the string \<^verbatim>\<open>YYYY-MM-DD\<close> of a date of the calendar, as the date
  input and the form's defaults produce it, or a string that \<^verbatim>\<open>new Date\<close> cannot read.
\<close>

type_synonym date = "int \<times> int \<times> int"

datatype dateString = EmptyString | DateString date | NotADate

text \<open>
  The fields of the form state that the two derivation effects read and write. The
  coverage and the risk score are the numbers the inputs hold, NaN when an input is
  empty.
\<close>

record policyForm =
  f_propertyId :: string
  f_coverageMonths :: jsnum
  f_riskScore :: jsnum
  f_startDate :: dateString
  f_endDate :: "date option"
  f_premiumAmount :: jsnum

text \<open>
  A property as the client receives it: \<^verbatim>\<open>id?: string\<close> and the rent, a decimal amount.
\<close>

record clientProperty =
  cp_id :: "string option"
  cp_rentAmount :: rat

subsection \<open>Premium\<close>

text \<open>
  \<^verbatim>\<open>const riskMultiplier = selectedRiskScore < 50 ? 1.5 : selectedRiskScore < 75 ? 1.0 : 0.8;\<close>
  The literals 1.5 and 1.0 are doubles; 0.8 denotes the double nearest to it.
\<close>

definition riskMultiplier :: "jsnum \<Rightarrow> jsnum" where
  "riskMultiplier selectedRiskScore =
     (if js_less selectedRiskScore (Finite 50) then Finite (3 / 2)
      else if js_less selectedRiskScore (Finite 75) then Finite 1
      else toDouble (4 / 5))"

text \<open>
  \<^verbatim>\<open>const premium = monthlyRent * 0.03 * coverageMonths * riskMultiplier;\<close>
  The products are taken from left to right, each rounded to a double.
\<close>

definition premium :: "jsnum \<Rightarrow> jsnum \<Rightarrow> jsnum \<Rightarrow> jsnum" where
  "premium monthlyRent coverageMonths riskMultiplier' =
     js_times (js_times (js_times monthlyRent (toDouble (3 / 100))) coverageMonths)
       riskMultiplier'"

text \<open>
  The effect that derives the premium. It runs only when a property is selected, the
  coverage is truthy and the selected property is among the fetched ones; otherwise the
  field keeps its value. \<^verbatim>\<open>parseFloat(String(property.rentAmount) || "0")\<close> is the double
  nearest to the rent.
\<close>

definition premiumEffect :: "clientProperty list \<Rightarrow> policyForm \<Rightarrow> policyForm" where
  "premiumEffect properties form =
     (if f_propertyId form \<noteq> [] \<and> truthy (f_coverageMonths form) then
        (case find (\<lambda>p. cp_id p = Some (f_propertyId form)) properties of
           Some property \<Rightarrow>
             form\<lparr>f_premiumAmount :=
               Math_round (premium (toDouble (cp_rentAmount property))
                 (f_coverageMonths form) (riskMultiplier (f_riskScore form)))\<rparr>
         | None \<Rightarrow> form)
      else form)"

text \<open>
  Following the words of the specification, for comparison with the code: an amount
  rounded to two decimal places.
\<close>

definition roundToTwoDecimals :: "rat \<Rightarrow> rat" where
  "roundToTwoDecimals x = of_int \<lfloor>x * 100 + 1 / 2\<rfloor> / 100"

subsection \<open>Coverage end date\<close>

text \<open>The calendar: leap years, and the length of the month with index \<open>mn\<close> (0 is January).\<close>

definition isLeapYear :: "int \<Rightarrow> bool" where
  "isLeapYear y = (y mod 4 = 0 \<and> (y mod 100 \<noteq> 0 \<or> y mod 400 = 0))"

definition daysInMonth :: "int \<Rightarrow> int \<Rightarrow> int" where
  "daysInMonth y mn =
     (if mn = 1 then (if isLeapYear y then 29 else 28)
      else if mn = 3 \<or> mn = 5 \<or> mn = 8 \<or> mn = 10 then 30 else 31)"

definition validDate :: "date \<Rightarrow> bool" where
  "validDate dt = (case dt of (y, m, d) \<Rightarrow>
     1 \<le> m \<and> m \<le> 12 \<and> 1 \<le> d \<and> d \<le> daysInMonth y (m - 1))"

definition nextDay :: "date \<Rightarrow> date" where
  "nextDay dt = (case dt of (y, m, d) \<Rightarrow>
     if d < daysInMonth y (m - 1) then (y, m, d + 1)
     else if m < 12 then (y, m + 1, 1) else (y + 1, 1, 1))"

definition prevDay :: "date \<Rightarrow> date" where
  "prevDay dt = (case dt of (y, m, d) \<Rightarrow>
     if 1 < d then (y, m, d - 1)
     else if 1 < m then (y, m - 1, daysInMonth y (m - 2)) else (y - 1, 12, 31))"

definition shiftDays :: "date \<Rightarrow> int \<Rightarrow> date" where
  "shiftDays dt n = (if 0 \<le> n then (nextDay ^^ nat n) dt else (prevDay ^^ nat (- n)) dt)"

text \<open>
  ECMAScript's day number of a date (day 0 is 1 January 1970); \<open>dayFromYear\<close> is
  DayFromYear of the language specification.
\<close>

definition dayFromYear :: "int \<Rightarrow> int" where
  "dayFromYear y =
     365 * (y - 1970) + (y - 1969) div 4 - (y - 1901) div 100 + (y - 1601) div 400"

definition daysBeforeMonth :: "int \<Rightarrow> int \<Rightarrow> int" where
  "daysBeforeMonth y mn = sum_list (map (daysInMonth y) [0..mn - 1])"

definition dayNumber :: "date \<Rightarrow> int" where
  "dayNumber dt =
     (case dt of (y, m, d) \<Rightarrow> dayFromYear y + daysBeforeMonth y (m - 1) + d - 1)"

text \<open>
  A time is a date and the second of that day, read either as UTC or as local time. A
  \<^verbatim>\<open>Date\<close> object holds a UTC time.
\<close>

type_synonym time = "date \<times> int"

definition addSeconds :: "time \<Rightarrow> int \<Rightarrow> time" where
  "addSeconds t k =
     (let s = snd t + k in (shiftDays (fst t) (s div 86400), s mod 86400))"

definition secondsSinceEpoch :: "time \<Rightarrow> int" where
  "secondsSinceEpoch t = dayNumber (fst t) * 86400 + snd t"

text \<open>
  The time zone of the browser is ECMAScript's LocalTZA(t, isUTC), in seconds: the offset
  of local time from UTC at the UTC time \<open>t\<close> when \<open>isUTC\<close>, and at the local time
  \<open>t\<close> otherwise.
\<close>

type_synonym timezone = "bool \<Rightarrow> time \<Rightarrow> int"

definition utc :: timezone where
  "utc isUTC t = 0"

definition fixedOffset :: "int \<Rightarrow> timezone" where
  "fixedOffset k isUTC t = k"

text \<open>
  Europe/Paris with the daylight saving time of 2024 (other years are not modelled): one
  hour ahead of UTC, and two hours from 31 March 01:00 UTC to 27 October 01:00 UTC, that
  is from 03:00 to 03:00 local time.
\<close>

definition paris2024 :: timezone where
  "paris2024 isUTC t =
     (if isUTC then
        (if secondsSinceEpoch ((2024, 3, 31), 3600) \<le> secondsSinceEpoch t
            \<and> secondsSinceEpoch t < secondsSinceEpoch ((2024, 10, 27), 3600)
         then 7200 else 3600)
      else
        (if secondsSinceEpoch ((2024, 3, 31), 10800) \<le> secondsSinceEpoch t
            \<and> secondsSinceEpoch t < secondsSinceEpoch ((2024, 10, 27), 10800)
         then 7200 else 3600))"

text \<open>LocalTime(t) and UTC(t) of the language specification.\<close>

definition LocalTime :: "timezone \<Rightarrow> time \<Rightarrow> time" where
  "LocalTime tz t = addSeconds t (tz True t)"

definition UTC :: "timezone \<Rightarrow> time \<Rightarrow> time" where
  "UTC tz t = addSeconds t (- tz False t)"

text \<open>\<^verbatim>\<open>getMonth()\<close>, on the local date: the index of the month.\<close>

definition getMonth :: "date \<Rightarrow> int" where
  "getMonth dt = (case dt of (y, m, d) \<Rightarrow> m - 1)"

text \<open>
  \<^verbatim>\<open>setMonth(month)\<close>, on the local date, is MakeDay(year, month, date) for the whole
  number \<open>month\<close>: the year moves by \<open>month div 12\<close> (rounded down), the month index
  becomes \<open>month mod 12\<close>, and the result is the day \<open>date - 1\<close> days after the first of
  that month. A day of the month is at most 31 and a month has at least 28 days, so a day
  beyond the end of the target month falls into the month after it. The time of day is
  kept.
\<close>

definition setMonth :: "date \<Rightarrow> int \<Rightarrow> date" where
  "setMonth dt month = (case dt of (y, m, d) \<Rightarrow>
     (let ym = y + month div 12; mn = month mod 12; len = daysInMonth ym mn in
      if d \<le> len then (ym, mn + 1, d)
      else if mn = 11 then (ym + 1, 1, d - len)
      else (ym, mn + 2, d - len)))"

text \<open>
  The effect that derives the end date runs when the start date and the coverage are both
  truthy. \<^verbatim>\<open>new Date(startDate)\<close> reads the date string as midnight UTC;
  \<^verbatim>\<open>end.setMonth(end.getMonth() + coverageMonths)\<close> works on the local time of the
  browser's time zone, takes the integer part of the sum as the month, and turns the
  result back into UTC; the end date is the date part of \<^verbatim>\<open>end.toISOString()\<close>, the
  UTC date. \<^verbatim>\<open>toISOString\<close> throws a RangeError when the date is invalid: when the
  start date could not be read, when the sum is not finite, or when the result is more
  than 8.64e15 milliseconds away from 1 January 1970.
\<close>

datatype form_error = RangeError

definition endDateEffect :: "timezone \<Rightarrow> policyForm \<Rightarrow> form_error + policyForm" where
  "endDateEffect tz form =
     (if f_startDate form \<noteq> EmptyString \<and> truthy (f_coverageMonths form) then
        (case f_startDate form of
           DateString startDate \<Rightarrow>
             (let t = LocalTime tz (startDate, 0) in
              case js_plus (Finite (of_int (getMonth (fst t)))) (f_coverageMonths form) of
                Finite month \<Rightarrow>
                  (let newDate = (setMonth (fst t) (integerPart month), snd t);
                       u = UTC tz newDate
                   in if \<bar>secondsSinceEpoch u * 1000\<bar> \<le> 8640000000000000
                      then Inr (form\<lparr>f_endDate := Some (fst u)\<rparr>)
                      else Inl RangeError)
              | _ \<Rightarrow> Inl RangeError)
         | _ \<Rightarrow> Inl RangeError)
      else Inr form)"

section \<open>The server's schemas (database/schema.ts)\<close>

text \<open>
  A timestamp is a calendar date and the second of that day, in UTC. A request field that
  \<^verbatim>\<open>z.coerce.date()\<close> cannot turn into a valid date is \<open>None\<close>.
\<close>

type_synonym timestamp = "date \<times> nat"

text \<open>Zod's validators, on one value each; \<open>None\<close> is an issue.\<close>

fun z_string :: "jsval \<Rightarrow> string option" where
  "z_string (JStr s) = Some s"
| "z_string _ = None"

fun z_number :: "jsval \<Rightarrow> rat option" where
  "z_number (JNum n) = Some n"
| "z_number _ = None"

text \<open>
  An integer column, of 32 bits. A number that is not whole or does not fit never reaches
  the table: the schema or the column's type refuses it, and either way the request ends
  in the handler's catch.
\<close>

fun z_integer :: "jsval \<Rightarrow> int option" where
  "z_integer (JNum n) =
     (if of_int \<lfloor>n\<rfloor> = n \<and> - 2147483648 \<le> n \<and> n \<le> 2147483647 then Some \<lfloor>n\<rfloor>
      else None)"
| "z_integer _ = None"

text \<open>\<^verbatim>\<open>z.enum(values).default(d)\<close>: the default replaces \<^verbatim>\<open>undefined\<close> only.\<close>

fun z_enum_default :: "string list \<Rightarrow> string \<Rightarrow> jsval \<Rightarrow> string option" where
  "z_enum_default values d JUndefined = Some d"
| "z_enum_default values d (JStr s) = (if s \<in> set values then Some s else None)"
| "z_enum_default values d _ = None"

text \<open>
  A thrown error. The text of a Zod error is the list of its issues; the model keeps the
  paths of the fields that failed.
\<close>

datatype js_error = ZodError "string list" | Error string

fun message :: "js_error \<Rightarrow> string" where
  "message (ZodError issues) = ''['' @ concat (map (\<lambda>i. i @ '';'') issues) @ '']''"
| "message (Error m) = m"

subsection \<open>Policies\<close>

text \<open>The body of a request that creates a policy.\<close>

record policyBody =
  b_landlordId :: jsval
  b_propertyId :: jsval
  b_tenantId :: jsval
  b_status :: jsval
  b_coverageMonths :: jsval
  b_riskScore :: jsval
  b_decision :: jsval
  b_startDate :: "timestamp option"
  b_endDate :: "timestamp option"
  b_premiumAmount :: jsval

text \<open>
  \<^verbatim>\<open>InsertPolicy\<close>: the columns of the table \<^verbatim>\<open>policies\<close> without id, policyNumber,
  createdAt and updatedAt.
\<close>

record insertPolicy =
  userId :: string
  landlordId :: string
  propertyId :: string
  tenantId :: string
  status :: string
  coverageMonths :: int
  riskScore :: rat
  decision :: string
  startDate :: timestamp
  endDate :: timestamp
  premiumAmount :: rat

text \<open>\<^verbatim>\<open>Policy\<close>: a row of the table.\<close>

record policy = insertPolicy +
  policy_id :: string
  policyNumber :: string

text \<open>
  \<^verbatim>\<open>insertPolicySchema\<close>: the schema generated from the table, with status an enum that
  defaults to active, riskScore and premiumAmount any number, and the two dates coerced.
  No field has a bound.
\<close>

definition insertPolicySchema_issues :: "policyBody \<Rightarrow> string list" where
  "insertPolicySchema_issues body =
     (if z_string (b_landlordId body) = None then [''landlordId''] else [])
     @ (if z_string (b_propertyId body) = None then [''propertyId''] else [])
     @ (if z_string (b_tenantId body) = None then [''tenantId''] else [])
     @ (if z_enum_default [''active'', ''expired'', ''cancelled''] ''active'' (b_status body) = None
        then [''status''] else [])
     @ (if z_integer (b_coverageMonths body) = None then [''coverageMonths''] else [])
     @ (if z_number (b_riskScore body) = None then [''riskScore''] else [])
     @ (if z_string (b_decision body) = None then [''decision''] else [])
     @ (if b_startDate body = None then [''startDate''] else [])
     @ (if b_endDate body = None then [''endDate''] else [])
     @ (if z_number (b_premiumAmount body) = None then [''premiumAmount''] else [])"

definition insertPolicySchema_values :: "policyBody \<Rightarrow> string \<Rightarrow> insertPolicy option" where
  "insertPolicySchema_values body uid = do {
     l \<leftarrow> z_string (b_landlordId body);
     p \<leftarrow> z_string (b_propertyId body);
     t \<leftarrow> z_string (b_tenantId body);
     st \<leftarrow> z_enum_default [''active'', ''expired'', ''cancelled''] ''active'' (b_status body);
     cm \<leftarrow> z_integer (b_coverageMonths body);
     rs \<leftarrow> z_number (b_riskScore body);
     dc \<leftarrow> z_string (b_decision body);
     sd \<leftarrow> b_startDate body;
     ed \<leftarrow> b_endDate body;
     pa \<leftarrow> z_number (b_premiumAmount body);
     Some \<lparr>userId = uid, landlordId = l, propertyId = p, tenantId = t, status = st,
       coverageMonths = cm, riskScore = rs, decision = dc, startDate = sd, endDate = ed,
       premiumAmount = pa\<rparr>
   }"

text \<open>\<^verbatim>\<open>insertPolicySchema.parse({ ...req.body, userId })\<close>\<close>

definition insertPolicySchema_parse :: "policyBody \<Rightarrow> string \<Rightarrow> js_error + insertPolicy" where
  "insertPolicySchema_parse body uid =
     (case insertPolicySchema_values body uid of
        Some policyData \<Rightarrow> Inr policyData
      | None \<Rightarrow> Inl (ZodError (insertPolicySchema_issues body)))"

subsection \<open>Claims\<close>

text \<open>
  The status field of the server's \<^verbatim>\<open>insertClaimSchema\<close> (database/schema.ts):
  \<^verbatim>\<open>z.enum(["pending", "approved", "rejected", "paid"]).default("pending")\<close>.
\<close>

definition insertClaimSchema_status :: "jsval \<Rightarrow> string option" where
  "insertClaimSchema_status =
     z_enum_default [''pending'', ''approved'', ''rejected'', ''paid''] ''pending''"

section \<open>The client's schemas (types/schema/policySchema.ts, claimSchema.ts)\<close>

text \<open>
  The status field of the client's \<^verbatim>\<open>insertClaimSchema\<close>:
  \<^verbatim>\<open>z.enum(["pending", "under_review", "approved", "rejected", "paid"]).default("pending")\<close>.
\<close>

definition client_insertClaimSchema_status :: "jsval \<Rightarrow> string option" where
  "client_insertClaimSchema_status =
     z_enum_default [''pending'', ''under_review'', ''approved'', ''rejected'', ''paid'']
       ''pending''"

text \<open>
  Two fields of the client's \<^verbatim>\<open>insertPolicySchema\<close>, on the numbers the form holds:
  \<^verbatim>\<open>coverageMonths: z.coerce.number().int().min(1)\<close> and
  \<^verbatim>\<open>riskScore: z.coerce.number().min(0).max(100)\<close>.
\<close>

definition client_coverageMonths_ok :: "rat \<Rightarrow> bool" where
  "client_coverageMonths_ok n = (of_int \<lfloor>n\<rfloor> = n \<and> 1 \<le> n)"

definition client_riskScore_ok :: "rat \<Rightarrow> bool" where
  "client_riskScore_ok n = (0 \<le> n \<and> n \<le> 100)"

section \<open>The store\<close>

text \<open>
  The rows of the tables of database/schema.ts, with the columns the policy handlers
  read. The table \<^verbatim>\<open>policies\<close> declares id as primary key and policy_number and
  tenant_id as unique.
\<close>

record landlord =
  landlord_id :: string
  landlord_userId :: string

record property =
  property_id :: string
  property_userId :: string

record tenant =
  tenant_id :: string
  tenant_userId :: string

record claim =
  claim_id :: string
  claim_userId :: string
  claim_policyId :: string
  claim_status :: string

record store =
  landlords :: "landlord list"
  properties :: "property list"
  tenants :: "tenant list"
  policies :: "policy list"
  claims :: "claim list"

text \<open>
  The storage layer (database/storage.ts) is not among the sources; the handlers call its
  functions \<^verbatim>\<open>getLandlord\<close>, \<^verbatim>\<open>getProperty\<close>, \<^verbatim>\<open>getTenant\<close>, \<^verbatim>\<open>createPolicy\<close>,
  \<^verbatim>\<open>updatePolicy\<close> and \<^verbatim>\<open>deletePolicy\<close>.
\<close>

text \<open>
  Modelled from the spec: \<^verbatim>\<open>storage.getLandlord(id)\<close> returns the landlord with that
  id, or nothing.
\<close>

definition getLandlord :: "store \<Rightarrow> string \<Rightarrow> landlord option" where
  "getLandlord s i = find (\<lambda>l. landlord_id l = i) (landlords s)"

text \<open>
  Modelled from the spec: \<^verbatim>\<open>storage.getProperty(id)\<close> returns the property with that
  id, or nothing.
\<close>

definition getProperty :: "store \<Rightarrow> string \<Rightarrow> property option" where
  "getProperty s i = find (\<lambda>p. property_id p = i) (properties s)"

text \<open>
  Modelled from the spec: \<^verbatim>\<open>storage.getTenant(id)\<close> returns the tenant with that id,
  or nothing.
\<close>

definition getTenant :: "store \<Rightarrow> string \<Rightarrow> tenant option" where
  "getTenant s i = find (\<lambda>t. tenant_id t = i) (tenants s)"

text \<open>
  Modelled from the spec: \<^verbatim>\<open>storage.createPolicy\<close> persists the validated values as a new
  row. The row's id is generated by the database and its policy number by the numbering
  service: the pair \<open>fresh\<close> stands for both. The insert fails when it would break one of
  the table's declared uniqueness constraints.
\<close>

definition storage_createPolicy ::
  "string \<times> string \<Rightarrow> insertPolicy \<Rightarrow> store \<Rightarrow> js_error + policy \<times> store" where
  "storage_createPolicy fresh policyData s =
     (if \<exists>p \<in> set (policies s). policy_id p = fst fresh \<or> policyNumber p = snd fresh
           \<or> tenantId p = tenantId policyData
      then Inl (Error ''duplicate key value violates unique constraint'')
      else
        (let newPolicy = \<lparr>userId = userId policyData, landlordId = landlordId policyData,
               propertyId = propertyId policyData, tenantId = tenantId policyData,
               status = status policyData, coverageMonths = coverageMonths policyData,
               riskScore = riskScore policyData, decision = decision policyData,
               startDate = startDate policyData, endDate = endDate policyData,
               premiumAmount = premiumAmount policyData,
               policy_id = fst fresh, policyNumber = snd fresh\<rparr>
         in Inr (newPolicy, s\<lparr>policies := policies s @ [newPolicy]\<rparr>)))"

text \<open>
  Modelled from the spec: \<^verbatim>\<open>storage.updatePolicy(id, userId, { status })\<close> writes the
  status of the policy with that id owned by that user and returns the updated row, or
  nothing when there is no such policy (the contract \<^verbatim>\<open>Policy | NotFound\<close>).
\<close>

definition storage_updatePolicy ::
  "string \<Rightarrow> string \<Rightarrow> string \<Rightarrow> store \<Rightarrow> policy option \<times> store" where
  "storage_updatePolicy i uid st s =
     (case find (\<lambda>p. policy_id p = i \<and> userId p = uid) (policies s) of
        None \<Rightarrow> (None, s)
      | Some p \<Rightarrow>
          (Some (p\<lparr>status := st\<rparr>),
           s\<lparr>policies :=
               map (\<lambda>q. if policy_id q = i \<and> userId q = uid then q\<lparr>status := st\<rparr> else q)
                 (policies s)\<rparr>))"

text \<open>
  Modelled from the spec: \<^verbatim>\<open>storage.deletePolicy(id, userId)\<close> fails, with an error
  whose message holds the words "active claims", whenever a claim references the policy,
  whatever the claim's status; otherwise it removes the policy with that id owned by that
  user and tells whether there was one.
\<close>

definition storage_deletePolicy ::
  "string \<Rightarrow> string \<Rightarrow> store \<Rightarrow> js_error + bool \<times> store" where
  "storage_deletePolicy i uid s =
     (if \<exists>c \<in> set (claims s). claim_policyId c = i
      then Inl (Error ''Cannot delete policy with active claims'')
      else if \<exists>p \<in> set (policies s). policy_id p = i \<and> userId p = uid
      then Inr (True,
             s\<lparr>policies := filter (\<lambda>p. \<not> (policy_id p = i \<and> userId p = uid)) (policies s)\<rparr>)
      else Inr (False, s))"

section \<open>The policy handlers (controllers/policyController.ts)\<close>

text \<open>
  A response: the HTTP status, the \<^verbatim>\<open>success\<close> flag and either a message or the policy
  sent as \<^verbatim>\<open>data\<close>.
\<close>

datatype payload = Message string | Data policy

datatype response = Response nat bool payload

fun statusCode :: "response \<Rightarrow> nat" where
  "statusCode (Response c ok b) = c"

text \<open>\<^verbatim>\<open>!landlord || landlord.userId !== userId\<close>, for each kind of parent.\<close>

definition missing_or_foreign :: "('a \<Rightarrow> string) \<Rightarrow> 'a option \<Rightarrow> string \<Rightarrow> bool" where
  "missing_or_foreign owner r uid = (case r of None \<Rightarrow> True | Some x \<Rightarrow> owner x \<noteq> uid)"

text \<open>\<^verbatim>\<open>err.message || "Invalid policy data."\<close>\<close>

definition message_or :: "js_error \<Rightarrow> string \<Rightarrow> string" where
  "message_or err d = (if message err = [] then d else message err)"

definition createPolicy ::
  "string \<times> string \<Rightarrow> policyBody \<Rightarrow> string \<Rightarrow> store \<Rightarrow> response \<times> store" where
  "createPolicy fresh body uid s =
     (case insertPolicySchema_parse body uid of
        Inl err \<Rightarrow> (Response 400 False (Message (message_or err ''Invalid policy data.'')), s)
      | Inr policyData \<Rightarrow>
          (if missing_or_foreign landlord_userId (getLandlord s (landlordId policyData)) uid
           then (Response 403 False (Message ''Invalid landlord.''), s)
           else if missing_or_foreign property_userId (getProperty s (propertyId policyData)) uid
           then (Response 403 False (Message ''Invalid property.''), s)
           else if missing_or_foreign tenant_userId (getTenant s (tenantId policyData)) uid
           then (Response 403 False (Message ''Invalid tenant.''), s)
           else
             (case storage_createPolicy fresh policyData s of
                Inl err \<Rightarrow>
                  (Response 400 False (Message (message_or err ''Invalid policy data.'')), s)
              | Inr (newPolicy, s') \<Rightarrow> (Response 201 True (Data newPolicy), s'))))"

text \<open>
  \<^verbatim>\<open>if (!status || !['active', 'expired', 'cancelled'].includes(status))\<close>, then the
  update.
\<close>

definition validStatus :: "jsval \<Rightarrow> string option" where
  "validStatus v =
     (case v of
        JStr st \<Rightarrow>
          (if \<not> falsy v \<and> st \<in> set [''active'', ''expired'', ''cancelled''] then Some st
           else None)
      | _ \<Rightarrow> None)"

definition updatePolicyStatus :: "string \<Rightarrow> string \<Rightarrow> jsval \<Rightarrow> store \<Rightarrow> response \<times> store" where
  "updatePolicyStatus i uid v s =
     (case validStatus v of
        None \<Rightarrow> (Response 400 False (Message ''Invalid status provided.''), s)
      | Some st \<Rightarrow>
          (case storage_updatePolicy i uid st s of
             (None, s') \<Rightarrow> (Response 404 False (Message ''Policy not found or access denied.''), s')
           | (Some updatedPolicy, s') \<Rightarrow> (Response 200 True (Data updatedPolicy), s')))"

text \<open>
  The catch of \<^verbatim>\<open>deletePolicy\<close> answers 409 with the error's message when the message
  includes "active claims", and 500 otherwise.
\<close>

definition deletePolicy :: "string \<Rightarrow> string \<Rightarrow> store \<Rightarrow> response \<times> store" where
  "deletePolicy i uid s =
     (case storage_deletePolicy i uid s of
        Inr (success, s') \<Rightarrow>
          (if \<not> success
           then (Response 404 False (Message ''Policy not found or access denied.''), s')
           else (Response 200 True (Message ''Policy deleted successfully.''), s'))
      | Inl err \<Rightarrow>
          (if sublist ''active claims'' (message err)
           then (Response 409 False (Message (message err)), s)
           else (Response 500 False (Message ''Failed to delete policy.''), s)))"

section \<open>Example data\<close>

text \<open>
  One user \<open>u1\<close> with a landlord, a property and two tenants, and one expired policy
  insuring the first tenant; \<open>u2\<close> is another user, with a landlord of their own.
\<close>

definition policy1 :: policy where
  "policy1 = \<lparr>userId = ''u1'', landlordId = ''l1'', propertyId = ''r1'', tenantId = ''t1'',
     status = ''expired'', coverageMonths = 12, riskScore = 40, decision = ''accept'',
     startDate = ((2024, 1, 1), 0), endDate = ((2025, 1, 1), 86399), premiumAmount = 540,
     policy_id = ''p1'', policyNumber = ''n1''\<rparr>"

definition store0 :: store where
  "store0 = \<lparr>landlords = [\<lparr>landlord_id = ''l1'', landlord_userId = ''u1''\<rparr>,
                            \<lparr>landlord_id = ''l2'', landlord_userId = ''u2''\<rparr>],
     properties = [\<lparr>property_id = ''r1'', property_userId = ''u1''\<rparr>],
     tenants = [\<lparr>tenant_id = ''t1'', tenant_userId = ''u1''\<rparr>,
                \<lparr>tenant_id = ''t2'', tenant_userId = ''u1''\<rparr>],
     policies = [], claims = []\<rparr>"

definition store1 :: store where
  "store1 = store0\<lparr>policies := [policy1]\<rparr>"

text \<open>The same store with a rejected claim against the policy.\<close>

definition store2 :: store where
  "store2 = store1\<lparr>claims := [\<lparr>claim_id = ''c1'', claim_userId = ''u1'',
     claim_policyId = ''p1'', claim_status = ''rejected''\<rparr>]\<rparr>"

text \<open>A well-formed request for a policy on the second tenant, status left out.\<close>

definition body2 :: policyBody where
  "body2 = \<lparr>b_landlordId = JStr ''l1'', b_propertyId = JStr ''r1'', b_tenantId = JStr ''t2'',
     b_status = JUndefined, b_coverageMonths = JNum 12, b_riskScore = JNum 40,
     b_decision = JStr ''accept'', b_startDate = Some ((2024, 1, 1), 0),
     b_endDate = Some ((2025, 1, 1), 86399), b_premiumAmount = JNum 540\<rparr>"

text \<open>The values the schema makes of that request, and the row stored for them.\<close>

definition values2 :: insertPolicy where
  "values2 = \<lparr>userId = ''u1'', landlordId = ''l1'', propertyId = ''r1'', tenantId = ''t2'',
     status = ''active'', coverageMonths = 12, riskScore = 40, decision = ''accept'',
     startDate = ((2024, 1, 1), 0), endDate = ((2025, 1, 1), 86399), premiumAmount = 540\<rparr>"

definition policy2 :: policy where
  "policy2 = \<lparr>userId = ''u1'', landlordId = ''l1'', propertyId = ''r1'', tenantId = ''t2'',
     status = ''active'', coverageMonths = 12, riskScore = 40, decision = ''accept'',
     startDate = ((2024, 1, 1), 0), endDate = ((2025, 1, 1), 86399), premiumAmount = 540,
     policy_id = ''p2'', policyNumber = ''n2''\<rparr>"

text \<open>
  A form with the property \<open>r1\<close> selected, twelve months and a score of 40, and the list
  of fetched properties in which \<open>r1\<close> has the given rent.
\<close>

definition form1 :: policyForm where
  "form1 = \<lparr>f_propertyId = ''r1'', f_coverageMonths = Finite 12, f_riskScore = Finite 40,
     f_startDate = EmptyString, f_endDate = None, f_premiumAmount = Finite 0\<rparr>"

definition fetched :: "rat \<Rightarrow> clientProperty list" where
  "fetched rent = [\<lparr>cp_id = Some ''r1'', cp_rentAmount = rent\<rparr>]"

text \<open>A form with one month of coverage from 15 March 2024.\<close>

definition formMarch :: policyForm where
  "formMarch = \<lparr>f_propertyId = ''r1'', f_coverageMonths = Finite 1, f_riskScore = Finite 40,
     f_startDate = DateString (2024, 3, 15), f_endDate = None, f_premiumAmount = Finite 0\<rparr>"

section \<open>Properties of the form's numbers\<close>

subsection \<open>Rounding to a double\<close>

text \<open>
  In the range of the normal doubles, \<open>toDouble\<close> rounds the magnitude to 53 significant
  bits: when \<open>2 ^ (q + 52) \<le> \<bar>x\<bar> < 2 ^ (q + 53)\<close>, the result is the multiple of \<open>2 ^ q\<close>
  nearest to \<open>x\<close>.
\<close>

lemma pow2_powi: "pow2 e = 2 powi e"
  by (simp add: pow2_def power_int_def inverse_eq_divide power_one_over)

lemma pow2_pos: "0 < pow2 e"
  by (simp add: pow2_def)

lemma pow2_add: "pow2 (a + b) = pow2 a * pow2 b"
  by (simp add: pow2_powi power_int_add)

lemma pow2_mono: "a \<le> b \<Longrightarrow> pow2 a \<le> pow2 b"
  by (simp add: pow2_powi power_int_increasing)

lemma pow2_nat: "pow2 (int k) = 2 ^ k"
  by (simp add: pow2_def)

lemma bitlen_eqI:
  assumes "2 ^ k \<le> n" "n < 2 ^ Suc k"
  shows "bitlen n = int k + 1"
proof -
  from assms have pos: "0 < n"
    by (smt (verit) zero_less_power)
  from bitlen_bounds [OF pos] have lo: "2 ^ nat (bitlen n - 1) \<le> n" and hi: "n < 2 ^ nat (bitlen n)"
    by simp_all
  from pos have b1: "1 \<le> bitlen n"
    using bitlen_eq_zero_iff [of n] bitlen_nonneg [of n] by linarith
  from lo assms(2) have "(2::int) ^ nat (bitlen n - 1) < 2 ^ Suc k"
    by linarith
  then have "nat (bitlen n - 1) < Suc k"
    using power_strict_increasing_iff [of "2::int" "nat (bitlen n - 1)" "Suc k"] by simp
  moreover from assms(1) hi have "(2::int) ^ k < 2 ^ nat (bitlen n)"
    by linarith
  then have "k < nat (bitlen n)"
    using power_strict_increasing_iff [of "2::int" k "nat (bitlen n)"] by simp
  ultimately show ?thesis
    using b1 by linarith
qed

lemma quantum_normal:
  assumes "- 1074 \<le> q" "pow2 (q + 52) \<le> a" "a < pow2 (q + 53)"
  shows "quantum a = q"
proof -
  define k where "k = nat (q + 1126)"
  from assms(1) have k: "int k = q + 1126"
    by (simp add: k_def)
  have "pow2 (q + 52) * 2 ^ 1074 = 2 ^ k"
    using pow2_add [of "q + 52" 1074] pow2_nat [of 1074] pow2_nat [of k] k
    by (simp add: add.commute)
  moreover have "pow2 (q + 53) * 2 ^ 1074 = 2 ^ Suc k"
    using pow2_add [of "q + 53" 1074] pow2_nat [of 1074] pow2_nat [of "Suc k"] k
    by (simp add: add.commute)
  ultimately have lo: "(2::rat) ^ k \<le> a * 2 ^ 1074" and hi: "a * 2 ^ 1074 < 2 ^ Suc k"
    using assms(2,3) by (metis mult_le_cancel_right_pos mult_less_cancel_right_pos zero_less_numeral zero_less_power)+
  have "(2::int) ^ k \<le> \<lfloor>a * 2 ^ 1074\<rfloor>"
    using lo by (simp add: le_floor_iff)
  moreover have "\<lfloor>a * 2 ^ 1074\<rfloor> < (2::int) ^ Suc k"
    using hi by (simp add: floor_less_iff)
  ultimately have "bitlen \<lfloor>a * 2 ^ 1074\<rfloor> = int k + 1"
    by (rule bitlen_eqI)
  with k assms(1) show ?thesis
    by (simp add: quantum_def)
qed

lemma roundHalfEven_le:
  assumes "y \<le> of_int n"
  shows "roundHalfEven y \<le> n"
proof -
  have f: "\<lfloor>y\<rfloor> \<le> n"
    using assms by (simp add: floor_le_iff)
  show ?thesis
  proof (cases "y = of_int \<lfloor>y\<rfloor>")
    case True
    then have "y - of_int \<lfloor>y\<rfloor> = 0" by simp
    then show ?thesis using f by (simp add: roundHalfEven_def Let_def)
  next
    case False
    then have "of_int \<lfloor>y\<rfloor> < y"
      by (metis of_int_floor_le order_less_le)
    with assms have "of_int \<lfloor>y\<rfloor> < (of_int n :: rat)" by linarith
    then have "\<lfloor>y\<rfloor> < n" by simp
    then show ?thesis by (simp add: roundHalfEven_def Let_def)
  qed
qed

lemma toDouble_eq:
  assumes "- 1074 \<le> q" "q \<le> 970" "pow2 (q + 52) \<le> \<bar>x\<bar>" "\<bar>x\<bar> < pow2 (q + 53)"
    and "roundHalfEven (\<bar>x\<bar> / pow2 q) = m"
  shows "toDouble x = Finite (sgn x * of_int m * pow2 q)"
proof -
  have q: "quantum \<bar>x\<bar> = q"
    by (rule quantum_normal [OF assms(1,3,4)])
  have "\<bar>x\<bar> / pow2 q \<le> pow2 53"
    using assms(4) pow2_add [of q 53] pow2_pos [of q]
    by (simp add: field_simps)
  then have "\<bar>x\<bar> / pow2 q \<le> of_int (2 ^ 53)"
    using pow2_nat [of 53] by simp
  then have "m \<le> 2 ^ 53"
    using roundHalfEven_le assms(5) by blast
  then have "(of_int m :: rat) \<le> pow2 53"
    using pow2_nat [of 53] by (metis of_int_le_iff of_int_numeral of_int_power of_nat_numeral)
  then have "of_int m * pow2 q \<le> pow2 53 * pow2 q"
    using pow2_pos [of q] by simp
  also have "\<dots> = pow2 (q + 53)"
    by (simp add: pow2_add mult.commute)
  also have "\<dots> \<le> pow2 1023"
    using assms(2) by (intro pow2_mono) simp
  also have "\<dots> < 2 ^ 1024"
    using pow2_nat [of 1023] by simp
  finally have small: "\<not> 2 ^ 1024 \<le> of_int m * pow2 q"
    by simp
  from pow2_pos [of "q + 52"] assms(3) have nz: "x \<noteq> 0"
    by auto
  show ?thesis
    using q assms(5) small nz
    by (cases "0 < x") (simp_all add: toDouble_def Let_def sgn_if)
qed

lemma toDouble_0: "toDouble 0 = Finite 0"
  by (simp add: toDouble_def quantum_def roundHalfEven_def)

lemma floor_rat_numeral:
  "\<lfloor>(numeral a / numeral b :: rat)\<rfloor> = numeral a div numeral b"
  using floor_divide_of_int_eq [of "numeral a" "numeral b", where ?'a = rat] by simp


lemma double_003: "toDouble (3 / 100) = Finite (1080863910568919 / 36028797018963968)"
  using toDouble_eq [where q = "- 58" and x = "3 / 100" and m = 8646911284551352]
  by (simp add: pow2_def roundHalfEven_def floor_rat_numeral)

lemma double_08: "toDouble (4 / 5) = Finite (3602879701896397 / 4503599627370496)"
  using toDouble_eq [where q = "- 53" and x = "4 / 5" and m = 7205759403792794]
  by (simp add: pow2_def roundHalfEven_def floor_rat_numeral)

subsection \<open>Premiums of the examples\<close>

text \<open>
  The double products of the examples, one rounding at a time: rent 1000 over 12 months
  in each bracket, rent 1015 over one month (30.45 as a double), and rent 180 over five
  months at the multiplier 1.5, whose exact product 40.5 comes out as the double just
  below it, 40.49999999999999.
\<close>

lemma premium_1000_12_high:
  "premium (toDouble 1000) (Finite 12) (Finite (3 / 2)) = Finite 540"
proof -
  have r: "toDouble 1000 = Finite 1000"
    using toDouble_eq [where q = "- 43" and x = "1000" and m = 8796093022208000]
    by (simp add: pow2_def roundHalfEven_def floor_rat_numeral)
  have p1: "js_times (Finite 1000) (Finite (1080863910568919 / 36028797018963968)) = Finite 30"
    using toDouble_eq [where q = "- 48" and x = "1000 * (1080863910568919 / 36028797018963968)" and m = 8444249301319680]
    by (simp add: pow2_def roundHalfEven_def floor_rat_numeral)
  have p2: "js_times (Finite 30) (Finite 12) = Finite 360"
    using toDouble_eq [where q = "- 44" and x = "30 * 12" and m = 6333186975989760]
    by (simp add: pow2_def roundHalfEven_def floor_rat_numeral)
  have p3: "js_times (Finite 360) (Finite (3 / 2)) = Finite 540"
    using toDouble_eq [where q = "- 43" and x = "360 * (3 / 2)" and m = 4749890231992320]
    by (simp add: pow2_def roundHalfEven_def floor_rat_numeral)
  show ?thesis
    unfolding premium_def double_003 r p1 p2 p3 by (rule refl)
qed

lemma premium_1000_12_mid:
  "premium (toDouble 1000) (Finite 12) (Finite 1) = Finite 360"
proof -
  have r: "toDouble 1000 = Finite 1000"
    using toDouble_eq [where q = "- 43" and x = "1000" and m = 8796093022208000]
    by (simp add: pow2_def roundHalfEven_def floor_rat_numeral)
  have p1: "js_times (Finite 1000) (Finite (1080863910568919 / 36028797018963968)) = Finite 30"
    using toDouble_eq [where q = "- 48" and x = "1000 * (1080863910568919 / 36028797018963968)" and m = 8444249301319680]
    by (simp add: pow2_def roundHalfEven_def floor_rat_numeral)
  have p2: "js_times (Finite 30) (Finite 12) = Finite 360"
    using toDouble_eq [where q = "- 44" and x = "30 * 12" and m = 6333186975989760]
    by (simp add: pow2_def roundHalfEven_def floor_rat_numeral)
  have p3: "js_times (Finite 360) (Finite 1) = Finite 360"
    using toDouble_eq [where q = "- 44" and x = "360 * 1" and m = 6333186975989760]
    by (simp add: pow2_def roundHalfEven_def floor_rat_numeral)
  show ?thesis
    unfolding premium_def double_003 r p1 p2 p3 by (rule refl)
qed

lemma premium_1000_12_low:
  "premium (toDouble 1000) (Finite 12) (toDouble (4 / 5)) = Finite 288"
proof -
  have r: "toDouble 1000 = Finite 1000"
    using toDouble_eq [where q = "- 43" and x = "1000" and m = 8796093022208000]
    by (simp add: pow2_def roundHalfEven_def floor_rat_numeral)
  have p1: "js_times (Finite 1000) (Finite (1080863910568919 / 36028797018963968)) = Finite 30"
    using toDouble_eq [where q = "- 48" and x = "1000 * (1080863910568919 / 36028797018963968)" and m = 8444249301319680]
    by (simp add: pow2_def roundHalfEven_def floor_rat_numeral)
  have p2: "js_times (Finite 30) (Finite 12) = Finite 360"
    using toDouble_eq [where q = "- 44" and x = "30 * 12" and m = 6333186975989760]
    by (simp add: pow2_def roundHalfEven_def floor_rat_numeral)
  have p3: "js_times (Finite 360) (Finite (3602879701896397 / 4503599627370496)) = Finite 288"
    using toDouble_eq [where q = "- 44" and x = "360 * (3602879701896397 / 4503599627370496)" and m = 5066549580791808]
    by (simp add: pow2_def roundHalfEven_def floor_rat_numeral)
  show ?thesis
    unfolding premium_def double_08 double_003 r p1 p2 p3 by (rule refl)
qed

lemma premium_1015_1_mid:
  "premium (toDouble 1015) (Finite 1) (Finite 1) = Finite (8570913040839475 / 281474976710656)"
proof -
  have r: "toDouble 1015 = Finite 1015"
    using toDouble_eq [where q = "- 43" and x = "1015" and m = 8928034417541120]
    by (simp add: pow2_def roundHalfEven_def floor_rat_numeral)
  have p1: "js_times (Finite 1015) (Finite (1080863910568919 / 36028797018963968)) = Finite (8570913040839475 / 281474976710656)"
    using toDouble_eq [where q = "- 48" and x = "1015 * (1080863910568919 / 36028797018963968)" and m = 8570913040839475]
    by (simp add: pow2_def roundHalfEven_def floor_rat_numeral)
  have p2: "js_times (Finite (8570913040839475 / 281474976710656)) (Finite 1) = Finite (8570913040839475 / 281474976710656)"
    using toDouble_eq [where q = "- 48" and x = "(8570913040839475 / 281474976710656) * 1" and m = 8570913040839475]
    by (simp add: pow2_def roundHalfEven_def floor_rat_numeral)
  have p3: "js_times (Finite (8570913040839475 / 281474976710656)) (Finite 1) = Finite (8570913040839475 / 281474976710656)"
    using toDouble_eq [where q = "- 48" and x = "(8570913040839475 / 281474976710656) * 1" and m = 8570913040839475]
    by (simp add: pow2_def roundHalfEven_def floor_rat_numeral)
  show ?thesis
    unfolding premium_def double_003 r p1 p2 p3 by (rule refl)
qed

lemma premium_180_5_high:
  "premium (toDouble 180) (Finite 5) (Finite (3 / 2)) = Finite (5699868278390783 / 140737488355328)"
proof -
  have r: "toDouble 180 = Finite 180"
    using toDouble_eq [where q = "- 45" and x = "180" and m = 6333186975989760]
    by (simp add: pow2_def roundHalfEven_def floor_rat_numeral)
  have p1: "js_times (Finite 180) (Finite (1080863910568919 / 36028797018963968)) = Finite (6079859496950169 / 1125899906842624)"
    using toDouble_eq [where q = "- 50" and x = "180 * (1080863910568919 / 36028797018963968)" and m = 6079859496950169]
    by (simp add: pow2_def roundHalfEven_def floor_rat_numeral)
  have p2: "js_times (Finite (6079859496950169 / 1125899906842624)) (Finite 5) = Finite (7599824371187711 / 281474976710656)"
    using toDouble_eq [where q = "- 48" and x = "(6079859496950169 / 1125899906842624) * 5" and m = 7599824371187711]
    by (simp add: pow2_def roundHalfEven_def floor_rat_numeral)
  have p3: "js_times (Finite (7599824371187711 / 281474976710656)) (Finite (3 / 2)) = Finite (5699868278390783 / 140737488355328)"
    using toDouble_eq [where q = "- 47" and x = "(7599824371187711 / 281474976710656) * (3 / 2)" and m = 5699868278390783]
    by (simp add: pow2_def roundHalfEven_def floor_rat_numeral)
  show ?thesis
    unfolding premium_def double_003 r p1 p2 p3 by (rule refl)
qed

lemma riskMultiplier_examples:
  "riskMultiplier (Finite 40) = Finite (3 / 2)" "riskMultiplier (Finite 60) = Finite 1"
  "riskMultiplier (Finite 80) = toDouble (4 / 5)"
  by (simp_all add: riskMultiplier_def)

lemma find_fetched:
  "find (\<lambda>p. cp_id p = Some ''r1'') (fetched rent) = Some \<lparr>cp_id = Some ''r1'', cp_rentAmount = rent\<rparr>"
  by (simp add: fetched_def)

section \<open>Properties of the premium derivation\<close>

text \<open>
  Claim C1, as amended: whenever a property is selected and found among the fetched
  properties and the coverage is a number other than zero, the form stores as premium
  the double product ((rent times 0.03) times coverage months) times the risk multiplier,
  rounded by \<^verbatim>\<open>Math.round\<close>, and changes nothing else; otherwise it leaves the form as
  it is. The multiplier is 1.5 below a score of 50, 1.0 from 50 up to but not including
  75, and 0.8 from 75 on and for an empty score; the scores 50 and 75 themselves fall into
  the bracket with the lower multiplier (1.0 and 0.8). The constants 0.03 and 0.8 are the
  doubles nearest to them.
\<close>

theorem premiumEffect_stores_rounded_product:
  "(f_propertyId form \<noteq> [] \<and> truthy (f_coverageMonths form)
      \<and> find (\<lambda>p. cp_id p = Some (f_propertyId form)) props = Some property \<longrightarrow>
      premiumEffect props form =
        form\<lparr>f_premiumAmount :=
          Math_round
            (js_times
              (js_times
                (js_times (toDouble (cp_rentAmount property)) (toDouble (3 / 100)))
                (f_coverageMonths form))
              (riskMultiplier (f_riskScore form)))\<rparr>)
   \<and> (f_propertyId form = [] \<or> \<not> truthy (f_coverageMonths form)
        \<or> find (\<lambda>p. cp_id p = Some (f_propertyId form)) props = None \<longrightarrow>
        premiumEffect props form = form)
   \<and> (s < 50 \<longrightarrow> riskMultiplier (Finite s) = Finite (3 / 2))
   \<and> (50 \<le> s \<and> s < 75 \<longrightarrow> riskMultiplier (Finite s) = Finite 1)
   \<and> (75 \<le> s \<longrightarrow> riskMultiplier (Finite s) = toDouble (4 / 5))
   \<and> riskMultiplier (Finite 50) = Finite 1
   \<and> riskMultiplier (Finite 75) = toDouble (4 / 5)
   \<and> riskMultiplier NaN = toDouble (4 / 5)
   \<and> toDouble (3 / 100) = Finite (1080863910568919 / 36028797018963968)
   \<and> toDouble (4 / 5) = Finite (3602879701896397 / 4503599627370496)"
proof (intro conjI impI)
  assume "f_propertyId form \<noteq> [] \<and> truthy (f_coverageMonths form)
      \<and> find (\<lambda>p. cp_id p = Some (f_propertyId form)) props = Some property"
  then show "premiumEffect props form =
        form\<lparr>f_premiumAmount :=
          Math_round
            (js_times
              (js_times
                (js_times (toDouble (cp_rentAmount property)) (toDouble (3 / 100)))
                (f_coverageMonths form))
              (riskMultiplier (f_riskScore form)))\<rparr>"
    by (simp add: premiumEffect_def premium_def)
next
  assume "f_propertyId form = [] \<or> \<not> truthy (f_coverageMonths form)
        \<or> find (\<lambda>p. cp_id p = Some (f_propertyId form)) props = None"
  then show "premiumEffect props form = form"
    by (auto simp: premiumEffect_def)
next
  show "toDouble (3 / 100) = Finite (1080863910568919 / 36028797018963968)"
    by (rule double_003)
  show "toDouble (4 / 5) = Finite (3602879701896397 / 4503599627370496)"
    by (rule double_08)
qed (simp_all add: riskMultiplier_def)

text \<open>
  A rent of 1000 over 12 months at the scores 40, 60 and 80, one in each bracket, and a
  form whose property is not among the fetched ones.
\<close>

theorem premiumEffect_stores_rounded_product_witness:
  "premiumEffect (fetched 1000) form1 = form1\<lparr>f_premiumAmount := Finite 540\<rparr>
   \<and> premiumEffect (fetched 1000) (form1\<lparr>f_riskScore := Finite 60\<rparr>)
       = form1\<lparr>f_riskScore := Finite 60, f_premiumAmount := Finite 360\<rparr>
   \<and> premiumEffect (fetched 1000) (form1\<lparr>f_riskScore := Finite 80\<rparr>)
       = form1\<lparr>f_riskScore := Finite 80, f_premiumAmount := Finite 288\<rparr>
   \<and> premiumEffect [] form1 = form1
   \<and> riskMultiplier (Finite 40) = Finite (3 / 2) \<and> riskMultiplier (Finite 60) = Finite 1
   \<and> riskMultiplier (Finite 80) = Finite (3602879701896397 / 4503599627370496)"
proof -
  have f: "f_propertyId form1 = ''r1''" "f_coverageMonths form1 = Finite 12"
    "f_riskScore form1 = Finite 40"
    by (simp_all add: form1_def)
  from premiumEffect_stores_rounded_product [where s = 40]
    premiumEffect_stores_rounded_product [where s = 60]
    premiumEffect_stores_rounded_product [where s = 80]
  have m: "riskMultiplier (Finite 40) = Finite (3 / 2)" "riskMultiplier (Finite 60) = Finite 1"
    "riskMultiplier (Finite 80) = Finite (3602879701896397 / 4503599627370496)"
    by simp_all
  have p: "js_times (js_times (js_times (toDouble 1000) (toDouble (3 / 100))) (Finite 12))
        (Finite (3 / 2)) = Finite 540"
    "js_times (js_times (js_times (toDouble 1000) (toDouble (3 / 100))) (Finite 12))
        (Finite 1) = Finite 360"
    "js_times (js_times (js_times (toDouble 1000) (toDouble (3 / 100))) (Finite 12))
        (toDouble (4 / 5)) = Finite 288"
    using premium_1000_12_high premium_1000_12_mid premium_1000_12_low
    by (simp_all add: premium_def)
  from premiumEffect_stores_rounded_product
      [where form = form1 and props = "fetched 1000"
         and property = "\<lparr>cp_id = Some ''r1'', cp_rentAmount = 1000\<rparr>", THEN conjunct1]
  have a: "premiumEffect (fetched 1000) form1 = form1\<lparr>f_premiumAmount := Finite 540\<rparr>"
    by (simp add: f p find_fetched riskMultiplier_examples floor_rat_numeral)
  from premiumEffect_stores_rounded_product
      [where form = "form1\<lparr>f_riskScore := Finite 60\<rparr>" and props = "fetched 1000"
         and property = "\<lparr>cp_id = Some ''r1'', cp_rentAmount = 1000\<rparr>", THEN conjunct1]
  have b: "premiumEffect (fetched 1000) (form1\<lparr>f_riskScore := Finite 60\<rparr>)
       = form1\<lparr>f_riskScore := Finite 60, f_premiumAmount := Finite 360\<rparr>"
    by (simp add: f p find_fetched riskMultiplier_examples floor_rat_numeral)
  from premiumEffect_stores_rounded_product
      [where form = "form1\<lparr>f_riskScore := Finite 80\<rparr>" and props = "fetched 1000"
         and property = "\<lparr>cp_id = Some ''r1'', cp_rentAmount = 1000\<rparr>", THEN conjunct1]
  have c: "premiumEffect (fetched 1000) (form1\<lparr>f_riskScore := Finite 80\<rparr>)
       = form1\<lparr>f_riskScore := Finite 80, f_premiumAmount := Finite 288\<rparr>"
    by (simp add: f p find_fetched riskMultiplier_examples floor_rat_numeral)
  from premiumEffect_stores_rounded_product
      [where form = form1 and props = "[]", THEN conjunct2, THEN conjunct1]
  have d: "premiumEffect [] form1 = form1"
    by simp
  from a b c d m show ?thesis
    by simp
qed

text \<open>
  Claim C1 as stated fails: for a rent of 180 over five months at score 40 the product
  rent times 0.03 times months times multiplier is 40.5, and the premium the form derives
  is 40; for a rent of 1015 over one month at score 60 the product is 30.45, and the
  premium the form derives is 30.
\<close>

theorem premium_not_the_product_counterexample:
  "premiumEffect (fetched 180) (form1\<lparr>f_coverageMonths := Finite 5\<rparr>)
     = form1\<lparr>f_coverageMonths := Finite 5, f_premiumAmount := Finite 40\<rparr>
   \<and> (180 :: rat) * (3 / 100) * 5 * (3 / 2) = 81 / 2
   \<and> premiumEffect (fetched 1015)
        (form1\<lparr>f_coverageMonths := Finite 1, f_riskScore := Finite 60\<rparr>)
     = form1\<lparr>f_coverageMonths := Finite 1, f_riskScore := Finite 60,
         f_premiumAmount := Finite 30\<rparr>
   \<and> (1015 :: rat) * (3 / 100) * 1 * 1 = 609 / 20"
proof -
  have "premiumEffect (fetched 180) (form1\<lparr>f_coverageMonths := Finite 5\<rparr>)
     = form1\<lparr>f_coverageMonths := Finite 5,
         f_premiumAmount := Math_round (premium (toDouble 180) (Finite 5) (Finite (3 / 2)))\<rparr>"
    by (simp add: premiumEffect_def form1_def fetched_def riskMultiplier_def)
  moreover have "premiumEffect (fetched 1015)
        (form1\<lparr>f_coverageMonths := Finite 1, f_riskScore := Finite 60\<rparr>)
     = form1\<lparr>f_coverageMonths := Finite 1, f_riskScore := Finite 60,
         f_premiumAmount := Math_round (premium (toDouble 1015) (Finite 1) (Finite 1))\<rparr>"
    by (simp add: premiumEffect_def form1_def fetched_def riskMultiplier_def)
  ultimately show ?thesis
    by (simp add: premium_180_5_high premium_1015_1_mid floor_rat_numeral)
qed

text \<open>
  Claim C6, as amended: when the effect runs, the premium amount it stores is the double
  product rounded to a whole number by \<^verbatim>\<open>Math.round\<close>, not to two decimal places: for a
  finite product it is the integer nearest to the product as computed in doubles, within
  one half of it, a computed product exactly halfway between two integers going up. The
  product is rounded to a double after each multiplication, so an exact product that ends
  in .5 can be computed just below it and stored rounded down.
\<close>

theorem premiumAmount_is_product_rounded_to_integer:
  assumes "f_propertyId form \<noteq> []"
    and "truthy (f_coverageMonths form)"
    and "find (\<lambda>p. cp_id p = Some (f_propertyId form)) props = Some property"
  shows "f_premiumAmount (premiumEffect props form) =
           Math_round (premium (toDouble (cp_rentAmount property))
             (f_coverageMonths form) (riskMultiplier (f_riskScore form)))
         \<and> (premium (toDouble (cp_rentAmount property))
               (f_coverageMonths form) (riskMultiplier (f_riskScore form))
              = Finite p \<longrightarrow>
              f_premiumAmount (premiumEffect props form) = Finite (of_int \<lfloor>p + 1 / 2\<rfloor>)
              \<and> \<bar>of_int \<lfloor>p + 1 / 2\<rfloor> - p\<bar> \<le> 1 / 2)"
proof -
  let ?p = "premium (toDouble (cp_rentAmount property))
             (f_coverageMonths form) (riskMultiplier (f_riskScore form))"
  have stored: "f_premiumAmount (premiumEffect props form) = Math_round ?p"
    using assms by (simp add: premiumEffect_def)
  have "of_int \<lfloor>p + 1 / 2\<rfloor> \<le> p + 1 / 2" and "p + 1 / 2 < of_int \<lfloor>p + 1 / 2\<rfloor> + 1"
    by linarith+
  then have "\<bar>of_int \<lfloor>p + 1 / 2\<rfloor> - p\<bar> \<le> 1 / 2"
    by linarith
  with stored show ?thesis
    by simp
qed

text \<open>
  The scenario of the specification, rent 1000, 12 months, score 40, stores 540; rent 180,
  five months, score 40, whose exact product is 40.5, stores 40.
\<close>

theorem premiumAmount_is_product_rounded_to_integer_witness:
  "f_premiumAmount (premiumEffect (fetched 1000) form1) = Finite 540
   \<and> f_premiumAmount (premiumEffect (fetched 180) (form1\<lparr>f_coverageMonths := Finite 5\<rparr>))
       = Finite 40"
proof -
  have f: "f_propertyId form1 = ''r1''" "f_coverageMonths form1 = Finite 12"
    "f_riskScore form1 = Finite 40"
    by (simp_all add: form1_def)
  from premiumAmount_is_product_rounded_to_integer
      [where form = form1 and props = "fetched 1000"
         and property = "\<lparr>cp_id = Some ''r1'', cp_rentAmount = 1000\<rparr>" and p = 540]
    premiumAmount_is_product_rounded_to_integer
      [where form = "form1\<lparr>f_coverageMonths := Finite 5\<rparr>" and props = "fetched 180"
         and property = "\<lparr>cp_id = Some ''r1'', cp_rentAmount = 180\<rparr>"
         and p = "5699868278390783 / 140737488355328"]
  show ?thesis
    by (simp add: f find_fetched riskMultiplier_examples premium_1000_12_high
        premium_180_5_high floor_rat_numeral)
qed

text \<open>
  Claim C6 as stated fails: for a rent of 1015 over one month at score 60 the product is
  30.45, exactly and as a double, which is its own rounding to two decimal places, and
  the form stores 30.
\<close>

theorem premiumAmount_two_decimals_counterexample:
  "f_premiumAmount (premiumEffect (fetched 1015)
      (form1\<lparr>f_coverageMonths := Finite 1, f_riskScore := Finite 60\<rparr>)) = Finite 30
   \<and> roundToTwoDecimals (1015 * (3 / 100) * 1 * 1) = 609 / 20
   \<and> premium (toDouble 1015) (Finite 1) (riskMultiplier (Finite 60))
       = Finite (8570913040839475 / 281474976710656)
   \<and> roundToTwoDecimals (8570913040839475 / 281474976710656) = 609 / 20"
proof -
  have "f_premiumAmount (premiumEffect (fetched 1015)
      (form1\<lparr>f_coverageMonths := Finite 1, f_riskScore := Finite 60\<rparr>))
     = Math_round (premium (toDouble 1015) (Finite 1) (Finite 1))"
    by (simp add: premiumEffect_def form1_def fetched_def riskMultiplier_def)
  then show ?thesis
    by (simp add: premium_1015_1_mid riskMultiplier_examples roundToTwoDecimals_def
        floor_rat_numeral)
qed

section \<open>Properties of the policy handlers\<close>

subsection \<open>Auxiliary facts\<close>



lemma sublist_active_claims:
  "sublist ''active claims'' ''Cannot delete policy with active claims''"
  by code_simp

lemma missing_or_foreign_iff:
  "missing_or_foreign owner r uid = (r = None \<or> (\<exists>x. r = Some x \<and> owner x \<noteq> uid))"
  by (cases r) (simp_all add: missing_or_foreign_def)

text \<open>A request either leaves the store as it was or is answered 201 after an insert.\<close>

lemma createPolicy_store:
  "snd (createPolicy fresh body uid s) = s
   \<or> (\<exists>d p. insertPolicySchema_parse body uid = Inr d
         \<and> storage_createPolicy fresh d s = Inr (p, s\<lparr>policies := policies s @ [p]\<rparr>)
         \<and> createPolicy fresh body uid s =
             (Response 201 True (Data p), s\<lparr>policies := policies s @ [p]\<rparr>)
         \<and> \<not> missing_or_foreign landlord_userId (getLandlord s (landlordId d)) uid
         \<and> \<not> missing_or_foreign property_userId (getProperty s (propertyId d)) uid
         \<and> \<not> missing_or_foreign tenant_userId (getTenant s (tenantId d)) uid)"
  by (auto simp: createPolicy_def storage_createPolicy_def Let_def split: sum.splits if_splits)

lemma createPolicy_201:
  assumes "statusCode (fst (createPolicy fresh body uid s)) = 201"
  shows "\<exists>d p. insertPolicySchema_parse body uid = Inr d
         \<and> storage_createPolicy fresh d s = Inr (p, s\<lparr>policies := policies s @ [p]\<rparr>)
         \<and> createPolicy fresh body uid s =
             (Response 201 True (Data p), s\<lparr>policies := policies s @ [p]\<rparr>)
         \<and> \<not> missing_or_foreign landlord_userId (getLandlord s (landlordId d)) uid
         \<and> \<not> missing_or_foreign property_userId (getProperty s (propertyId d)) uid
         \<and> \<not> missing_or_foreign tenant_userId (getTenant s (tenantId d)) uid"
  using assms
  by (auto simp: createPolicy_def storage_createPolicy_def Let_def split: sum.splits if_splits)

lemma createPolicy_not_201:
  assumes "statusCode (fst (createPolicy fresh body uid s)) \<noteq> 201"
  shows "snd (createPolicy fresh body uid s) = s"
  using assms
  by (auto simp: createPolicy_def storage_createPolicy_def Let_def split: sum.splits if_splits)

lemma storage_createPolicy_Inr:
  assumes "storage_createPolicy fresh d s = Inr (p, s')"
  shows "tenantId p = tenantId d" and "tenantId d \<notin> tenantId ` set (policies s)"
    and "s' = s\<lparr>policies := policies s @ [p]\<rparr>"
    and "endDate p = endDate d" and "status p = status d"
    and "coverageMonths p = coverageMonths d" and "riskScore p = riskScore d"
  using assms
  by (auto simp: storage_createPolicy_def Let_def split: if_splits)

text \<open>What a successful parse says about the request.\<close>

lemma parse_InrD:
  assumes "insertPolicySchema_parse body uid = Inr d"
  shows "z_string (b_tenantId body) = Some (tenantId d)"
    and "z_enum_default [''active'', ''expired'', ''cancelled''] ''active'' (b_status body)
          = Some (status d)"
    and "b_endDate body = Some (endDate d)"
proof -
  from assms have "insertPolicySchema_values body uid = Some d"
    by (simp add: insertPolicySchema_parse_def split: option.splits)
  then show "z_string (b_tenantId body) = Some (tenantId d)"
    and "z_enum_default [''active'', ''expired'', ''cancelled''] ''active'' (b_status body)
          = Some (status d)"
    and "b_endDate body = Some (endDate d)"
    unfolding insertPolicySchema_values_def
    by (auto simp: bind_eq_Some_conv)
qed

lemma parse_tenantId:
  assumes "insertPolicySchema_parse body uid = Inr d"
  shows "b_tenantId body = JStr (tenantId d)"
  using parse_InrD(1) [OF assms] by (cases "b_tenantId body") simp_all

text \<open>Month lengths, and that \<open>setMonth\<close> yields a date of the calendar.\<close>

lemma daysInMonth_bounds: "28 \<le> daysInMonth y mn \<and> daysInMonth y mn \<le> 31"
  by (simp add: daysInMonth_def)

lemma daysInMonth_December: "daysInMonth y 11 = 31"
  by (simp add: daysInMonth_def)

lemma setMonth_valid:
  assumes "validDate (y, m, d)"
  shows "validDate (setMonth (y, m, d) month)"
proof -
  let ?ym = "y + month div 12" and ?mn = "month mod 12"
  let ?len = "daysInMonth ?ym ?mn"
  from assms have d: "1 \<le> d" "d \<le> 31"
    using daysInMonth_bounds [of y "m - 1"] by (simp_all add: validDate_def)
  have mn: "0 \<le> ?mn" "?mn \<le> 11"
    by simp_all
  show ?thesis
  proof (cases "d \<le> ?len")
    case True
    with d mn show ?thesis
      by (simp add: setMonth_def validDate_def Let_def)
  next
    case False
    with daysInMonth_December [of ?ym] d have ne: "?mn \<noteq> 11"
      by auto
    from False d daysInMonth_bounds [of ?ym ?mn] have r: "1 \<le> d - ?len" "d - ?len \<le> 3"
      by simp_all
    from r daysInMonth_bounds [of ?ym "1 + ?mn"]
    have "d - ?len \<le> daysInMonth ?ym (1 + ?mn)"
      by linarith
    with False ne mn r show ?thesis
      by (simp add: setMonth_def validDate_def Let_def)
  qed
qed

text \<open>The equations that evaluate a request to create a policy on concrete data.\<close>

lemmas createPolicy_eval =
  createPolicy_def insertPolicySchema_parse_def insertPolicySchema_values_def
  insertPolicySchema_issues_def missing_or_foreign_def message_or_def
  getLandlord_def getProperty_def getTenant_def storage_createPolicy_def Let_def

lemmas example_defs =
  body2_def values2_def policy2_def store2_def store1_def store0_def policy1_def

text \<open>
  In days, \<open>setMonth\<close> is MakeDay: the day \<open>d - 1\<close> days after the first of the
  target month.
\<close>

lemma daysBeforeMonth_Suc:
  "0 \<le> mn \<Longrightarrow> daysBeforeMonth y (mn + 1) = daysBeforeMonth y mn + daysInMonth y mn"
  by (simp add: daysBeforeMonth_def upto_rec2)

lemma setMonth_dayNumber:
  assumes "validDate (y, m, d)"
  shows "dayNumber (setMonth (y, m, d) month)
    = dayNumber (y + month div 12, month mod 12 + 1, 1) + (d - 1)"
proof -
  let ?ym = "y + month div 12" and ?mn = "month mod 12"
  let ?len = "daysInMonth ?ym ?mn"
  from assms have d: "1 \<le> d" "d \<le> 31"
    using daysInMonth_bounds [of y "m - 1"] by (simp_all add: validDate_def)
  have mn: "0 \<le> ?mn"
    by simp
  show ?thesis
  proof (cases "d \<le> ?len")
    case True
    then show ?thesis
      by (simp add: setMonth_def dayNumber_def Let_def)
  next
    case False
    with daysInMonth_December [of ?ym] d have ne: "?mn \<noteq> 11"
      by auto
    from daysBeforeMonth_Suc [OF mn, of ?ym]
    have "daysBeforeMonth ?ym (?mn + 1) = daysBeforeMonth ?ym ?mn + ?len" .
    with False ne show ?thesis
      by (simp add: setMonth_def dayNumber_def Let_def add.commute)
  qed
qed

subsection \<open>Status updates\<close>



subsection \<open>Deletion\<close>

text \<open>
  Claim C3: deleting a policy that at least one claim references, whatever the claim's
  status, is answered 409 with a message containing "active claims" and leaves the store,
  hence the policy and its claims, unchanged; deleting a policy of the acting user that
  no claim references succeeds and removes it.
\<close>

theorem deletePolicy_blocked_while_claims_exist:
  "((\<exists>c \<in> set (claims s). claim_policyId c = i) \<longrightarrow>
      (\<exists>m. deletePolicy i uid s = (Response 409 False (Message m), s)
           \<and> sublist ''active claims'' m))
   \<and> (\<not> (\<exists>c \<in> set (claims s). claim_policyId c = i)
        \<and> (\<exists>p \<in> set (policies s). policy_id p = i \<and> userId p = uid) \<longrightarrow>
        deletePolicy i uid s =
          (Response 200 True (Message ''Policy deleted successfully.''),
           s\<lparr>policies := filter (\<lambda>p. \<not> (policy_id p = i \<and> userId p = uid)) (policies s)\<rparr>))"
  by (auto simp: deletePolicy_def storage_deletePolicy_def sublist_active_claims)

text \<open>
  On the example stores: the policy with a rejected claim stays, the policy without
  claims goes.
\<close>

theorem deletePolicy_blocked_while_claims_exist_witness:
  "statusCode (fst (deletePolicy ''p1'' ''u1'' store2)) = 409
   \<and> snd (deletePolicy ''p1'' ''u1'' store2) = store2
   \<and> deletePolicy ''p1'' ''u1'' store1 =
       (Response 200 True (Message ''Policy deleted successfully.''), store0)"
  using deletePolicy_blocked_while_claims_exist [of store2 "''p1''" "''u1''"]
    deletePolicy_blocked_while_claims_exist [of store1 "''p1''" "''u1''"]
  by (auto simp: store2_def store1_def store0_def policy1_def)

subsection \<open>One policy for each tenant\<close>

text \<open>
  Claim C9: the tenant ids of the stored policies are pairwise distinct, and every handler
  keeps them so; a request to create a policy for a tenant who already has one is not
  answered 201 and stores nothing.
\<close>

theorem tenantId_unique_across_policies:
  assumes "distinct (map tenantId (policies s))"
  shows "distinct (map tenantId (policies (snd (createPolicy fresh body uid s))))
    \<and> distinct (map tenantId (policies (snd (updatePolicyStatus i uid v s))))
    \<and> distinct (map tenantId (policies (snd (deletePolicy i uid s))))
    \<and> ((\<exists>p \<in> set (policies s). b_tenantId body = JStr (tenantId p)) \<longrightarrow>
         statusCode (fst (createPolicy fresh body uid s)) \<noteq> 201
         \<and> snd (createPolicy fresh body uid s) = s)"
proof (intro conjI impI)
  show "distinct (map tenantId (policies (snd (createPolicy fresh body uid s))))"
    using createPolicy_store [of fresh body uid s]
  proof
    assume "snd (createPolicy fresh body uid s) = s"
    with assms show ?thesis by simp
  next
    assume "\<exists>d p. insertPolicySchema_parse body uid = Inr d
         \<and> storage_createPolicy fresh d s = Inr (p, s\<lparr>policies := policies s @ [p]\<rparr>)
         \<and> createPolicy fresh body uid s =
             (Response 201 True (Data p), s\<lparr>policies := policies s @ [p]\<rparr>)
         \<and> \<not> missing_or_foreign landlord_userId (getLandlord s (landlordId d)) uid
         \<and> \<not> missing_or_foreign property_userId (getProperty s (propertyId d)) uid
         \<and> \<not> missing_or_foreign tenant_userId (getTenant s (tenantId d)) uid"
    then obtain d p where
      ins: "storage_createPolicy fresh d s = Inr (p, s\<lparr>policies := policies s @ [p]\<rparr>)"
      and res: "createPolicy fresh body uid s =
        (Response 201 True (Data p), s\<lparr>policies := policies s @ [p]\<rparr>)"
      by blast
    from storage_createPolicy_Inr(1,2) [OF ins]
    have "tenantId p \<notin> tenantId ` set (policies s)"
      by simp
    with assms res show ?thesis by simp
  qed
next
  have "tenantId \<circ> (\<lambda>q::policy. if policy_id q = i \<and> userId q = uid then q\<lparr>status := st\<rparr> else q)
      = tenantId" for st
    by (simp add: fun_eq_iff)
  with assms show "distinct (map tenantId (policies (snd (updatePolicyStatus i uid v s))))"
    by (auto simp: updatePolicyStatus_def storage_updatePolicy_def split: option.splits)
next
  from assms show "distinct (map tenantId (policies (snd (deletePolicy i uid s))))"
    by (auto simp: deletePolicy_def storage_deletePolicy_def distinct_map_filter)
next
  assume dup: "\<exists>p \<in> set (policies s). b_tenantId body = JStr (tenantId p)"
  show "statusCode (fst (createPolicy fresh body uid s)) \<noteq> 201"
  proof
    assume "statusCode (fst (createPolicy fresh body uid s)) = 201"
    from createPolicy_201 [OF this] obtain d p where
      "insertPolicySchema_parse body uid = Inr d"
      and "storage_createPolicy fresh d s = Inr (p, s\<lparr>policies := policies s @ [p]\<rparr>)"
      by blast
    then have "b_tenantId body = JStr (tenantId d)"
      and "tenantId d \<notin> tenantId ` set (policies s)"
      by (simp_all add: parse_tenantId storage_createPolicy_Inr(2))
    with dup show False
      by force
  qed
  then show "snd (createPolicy fresh body uid s) = s"
    by (rule createPolicy_not_201)
qed

text \<open>
  On the example store, whose only policy insures tenant \<open>t1\<close>: a second policy for
  \<open>t1\<close> is refused with 400, a policy for \<open>t2\<close> is created.
\<close>

theorem tenantId_unique_across_policies_witness:
  "distinct (map tenantId (policies store1))
   \<and> statusCode (fst (createPolicy (''p2'', ''n2'') (body2\<lparr>b_tenantId := JStr ''t1''\<rparr>)
        ''u1'' store1)) = 400
   \<and> snd (createPolicy (''p2'', ''n2'') (body2\<lparr>b_tenantId := JStr ''t1''\<rparr>) ''u1'' store1)
       = store1
   \<and> map tenantId (policies (snd (createPolicy (''p2'', ''n2'') body2 ''u1'' store1)))
       = [''t1'', ''t2'']"
proof -
  have d: "distinct (map tenantId (policies store1))"
    by (simp add: store1_def store0_def policy1_def)
  have c: "statusCode (fst (createPolicy (''p2'', ''n2'') (body2\<lparr>b_tenantId := JStr ''t1''\<rparr>)
        ''u1'' store1)) = 400"
    by (simp add: createPolicy_eval example_defs)
  have e: "map tenantId (policies (snd (createPolicy (''p2'', ''n2'') body2 ''u1'' store1)))
       = [''t1'', ''t2'']"
    by (simp add: createPolicy_eval example_defs)
  from tenantId_unique_across_policies
    [OF d, of "(''p2'', ''n2'')" "body2\<lparr>b_tenantId := JStr ''t1''\<rparr>" "''u1''" "''p1''"
      "JStr ''active''"]
  have "snd (createPolicy (''p2'', ''n2'') (body2\<lparr>b_tenantId := JStr ''t1''\<rparr>) ''u1'' store1)
       = store1"
    by (simp add: store1_def store0_def policy1_def)
  with d c e show ?thesis
    by simp
qed

subsection \<open>References to parents\<close>

text \<open>
  Claim C4: for every request that reaches the reference checks, that is every request
  that passes the schema, a landlord, property or tenant that does not exist or belongs
  to another user is answered 403 with the message naming the reference that failed
  (the first one in the order landlord, property, tenant), and the store is unchanged, so
  no policy is created. A request is never answered 201 unless it parses and all three
  references resolve to records of the acting user, and any other answer leaves the
  store unchanged.
\<close>

theorem createPolicy_checks_references:
  "(insertPolicySchema_parse body uid = Inr d \<longrightarrow>
      (getLandlord s (landlordId d) = None
          \<or> (\<exists>l. getLandlord s (landlordId d) = Some l \<and> landlord_userId l \<noteq> uid) \<longrightarrow>
            createPolicy fresh body uid s =
              (Response 403 False (Message ''Invalid landlord.''), s))
    \<and> ((\<exists>l. getLandlord s (landlordId d) = Some l \<and> landlord_userId l = uid)
         \<and> (getProperty s (propertyId d) = None
             \<or> (\<exists>p. getProperty s (propertyId d) = Some p \<and> property_userId p \<noteq> uid)) \<longrightarrow>
            createPolicy fresh body uid s =
              (Response 403 False (Message ''Invalid property.''), s))
    \<and> ((\<exists>l. getLandlord s (landlordId d) = Some l \<and> landlord_userId l = uid)
         \<and> (\<exists>p. getProperty s (propertyId d) = Some p \<and> property_userId p = uid)
         \<and> (getTenant s (tenantId d) = None
             \<or> (\<exists>t. getTenant s (tenantId d) = Some t \<and> tenant_userId t \<noteq> uid)) \<longrightarrow>
            createPolicy fresh body uid s =
              (Response 403 False (Message ''Invalid tenant.''), s)))
   \<and> (statusCode (fst (createPolicy fresh body uid s)) = 201 \<longrightarrow>
      (\<exists>d l p t. insertPolicySchema_parse body uid = Inr d
         \<and> getLandlord s (landlordId d) = Some l \<and> landlord_userId l = uid
         \<and> getProperty s (propertyId d) = Some p \<and> property_userId p = uid
         \<and> getTenant s (tenantId d) = Some t \<and> tenant_userId t = uid))
   \<and> (statusCode (fst (createPolicy fresh body uid s)) \<noteq> 201 \<longrightarrow>
        snd (createPolicy fresh body uid s) = s)"
proof (intro conjI impI)
  assume "statusCode (fst (createPolicy fresh body uid s)) = 201"
  from createPolicy_201 [OF this]
  show "\<exists>d l p t. insertPolicySchema_parse body uid = Inr d
         \<and> getLandlord s (landlordId d) = Some l \<and> landlord_userId l = uid
         \<and> getProperty s (propertyId d) = Some p \<and> property_userId p = uid
         \<and> getTenant s (tenantId d) = Some t \<and> tenant_userId t = uid"
    by (auto simp: missing_or_foreign_iff)
next
  assume "statusCode (fst (createPolicy fresh body uid s)) \<noteq> 201"
  then show "snd (createPolicy fresh body uid s) = s"
    by (rule createPolicy_not_201)
qed (auto simp: createPolicy_def missing_or_foreign_def)

text \<open>
  On the example store: a landlord that does not exist, the landlord of another user, a
  property and a tenant that do not exist, and a request whose references all resolve.
\<close>

theorem createPolicy_checks_references_witness:
  "createPolicy (''p2'', ''n2'') (body2\<lparr>b_landlordId := JStr ''l9''\<rparr>) ''u1'' store1
     = (Response 403 False (Message ''Invalid landlord.''), store1)
   \<and> createPolicy (''p2'', ''n2'') (body2\<lparr>b_landlordId := JStr ''l2''\<rparr>) ''u1'' store1
     = (Response 403 False (Message ''Invalid landlord.''), store1)
   \<and> createPolicy (''p2'', ''n2'') (body2\<lparr>b_propertyId := JStr ''r9''\<rparr>) ''u1'' store1
     = (Response 403 False (Message ''Invalid property.''), store1)
   \<and> createPolicy (''p2'', ''n2'') (body2\<lparr>b_tenantId := JStr ''t9''\<rparr>) ''u1'' store1
     = (Response 403 False (Message ''Invalid tenant.''), store1)
   \<and> statusCode (fst (createPolicy (''p2'', ''n2'') body2 ''u1'' store1)) = 201"
proof -
  have parse: "insertPolicySchema_parse (body2\<lparr>b_landlordId := JStr ''l9''\<rparr>) ''u1''
      = Inr (values2\<lparr>landlordId := ''l9''\<rparr>)"
    "insertPolicySchema_parse (body2\<lparr>b_landlordId := JStr ''l2''\<rparr>) ''u1''
      = Inr (values2\<lparr>landlordId := ''l2''\<rparr>)"
    "insertPolicySchema_parse (body2\<lparr>b_propertyId := JStr ''r9''\<rparr>) ''u1''
      = Inr (values2\<lparr>propertyId := ''r9''\<rparr>)"
    "insertPolicySchema_parse (body2\<lparr>b_tenantId := JStr ''t9''\<rparr>) ''u1''
      = Inr (values2\<lparr>tenantId := ''t9''\<rparr>)"
    by (simp_all add: insertPolicySchema_parse_def insertPolicySchema_values_def
        body2_def values2_def)
  have ok: "statusCode (fst (createPolicy (''p2'', ''n2'') body2 ''u1'' store1)) = 201"
    by (simp add: createPolicy_eval example_defs)
  from createPolicy_checks_references
      [of "body2\<lparr>b_landlordId := JStr ''l9''\<rparr>" "''u1''" "values2\<lparr>landlordId := ''l9''\<rparr>"
        store1 "(''p2'', ''n2'')"]
    createPolicy_checks_references
      [of "body2\<lparr>b_landlordId := JStr ''l2''\<rparr>" "''u1''" "values2\<lparr>landlordId := ''l2''\<rparr>"
        store1 "(''p2'', ''n2'')"]
    createPolicy_checks_references
      [of "body2\<lparr>b_propertyId := JStr ''r9''\<rparr>" "''u1''" "values2\<lparr>propertyId := ''r9''\<rparr>"
        store1 "(''p2'', ''n2'')"]
    createPolicy_checks_references
      [of "body2\<lparr>b_tenantId := JStr ''t9''\<rparr>" "''u1''" "values2\<lparr>tenantId := ''t9''\<rparr>"
        store1 "(''p2'', ''n2'')"]
    parse ok
  show ?thesis
    by (simp add: getLandlord_def getProperty_def getTenant_def example_defs)
qed

section \<open>Properties of the schemas\<close>

text \<open>
  Claim C7: the claim statuses are pending, under_review, approved, rejected and paid,
  with pending as default. The server's schema does not follow it: it takes pending,
  approved, rejected and paid only and refuses under_review, which the client's schema
  and form offer.
\<close>

theorem server_schema_refuses_under_review:
  "insertClaimSchema_status (JStr ''under_review'') = None
   \<and> client_insertClaimSchema_status (JStr ''under_review'') = Some ''under_review''
   \<and> insertClaimSchema_status JUndefined = Some ''pending''
   \<and> (insertClaimSchema_status (JStr st) \<noteq> None) =
       (st \<in> {''pending'', ''approved'', ''rejected'', ''paid''})"
  by (simp add: insertClaimSchema_status_def client_insertClaimSchema_status_def)

text \<open>
  Claim C8: an accepted policy has at least one month of coverage and a risk score from 0
  to 100. The server does not follow it: a request with zero months and a score of 150,
  both refused by the client's schema, is answered 201 and stored.
\<close>

theorem server_accepts_policy_out_of_bounds:
  "createPolicy (''p2'', ''n2'')
      (body2\<lparr>b_coverageMonths := JNum 0, b_riskScore := JNum 150\<rparr>) ''u1'' store1
    = (Response 201 True (Data (policy2\<lparr>coverageMonths := 0, riskScore := 150\<rparr>)),
       store1\<lparr>policies := [policy1, policy2\<lparr>coverageMonths := 0, riskScore := 150\<rparr>]\<rparr>)
   \<and> \<not> client_coverageMonths_ok 0 \<and> \<not> client_riskScore_ok 150"
  by (simp add: createPolicy_eval example_defs client_coverageMonths_ok_def
      client_riskScore_ok_def)

section \<open>Properties of the end date\<close>

text \<open>
  With UTC as local time zone the effect is calendar arithmetic on the start date: the
  end date is \<open>setMonth\<close> of the start date, as long as it is in the range of a
  \<^verbatim>\<open>Date\<close>. A start date that cannot be read makes the effect throw.
\<close>

lemma LocalTime_utc: "LocalTime utc (dt, 0) = (dt, 0)"
  by (simp add: LocalTime_def utc_def addSeconds_def shiftDays_def)

lemma UTC_utc: "UTC utc (dt, 0) = (dt, 0)"
  by (simp add: UTC_def utc_def addSeconds_def shiftDays_def)

lemma endDateEffect_utc:
  assumes "f_startDate form = DateString start" and "truthy (f_coverageMonths form)"
    and "js_plus (Finite (of_int (getMonth start))) (f_coverageMonths form) = Finite month"
    and "\<bar>dayNumber (setMonth start (integerPart month))\<bar> \<le> 100000000"
  shows "endDateEffect utc form =
    Inr (form\<lparr>f_endDate := Some (setMonth start (integerPart month))\<rparr>)"
  using assms
  by (simp add: endDateEffect_def LocalTime_utc UTC_utc secondsSinceEpoch_def abs_mult)

lemma endDateEffect_NotADate:
  assumes "f_startDate form = NotADate" and "truthy (f_coverageMonths form)"
  shows "endDateEffect tz form = Inl RangeError"
  using assms by (simp add: endDateEffect_def)

text \<open>The steps of the examples: seconds since 1 January 1970, local time and back.\<close>

lemmas calendar_eval =
  dayNumber_def dayFromYear_def daysBeforeMonth_def daysInMonth_def isLeapYear_def upto_rec1

lemma seconds_examples:
  "secondsSinceEpoch ((2024, 3, 31), 3600) = 1711846800"
  "secondsSinceEpoch ((2024, 10, 27), 3600) = 1729990800"
  "secondsSinceEpoch ((2024, 3, 31), 10800) = 1711854000"
  "secondsSinceEpoch ((2024, 10, 27), 10800) = 1729998000"
  "secondsSinceEpoch ((2024, 3, 15), 0) = 1710460800"
  "secondsSinceEpoch ((2024, 4, 15), 3600) = 1713142800"
  "secondsSinceEpoch ((2024, 4, 14), 82800) = 1713135600"
  "secondsSinceEpoch ((2024, 4, 15), 0) = 1713139200"
  "secondsSinceEpoch ((2024, 3, 30), 0) = 1711756800"
  by (simp_all add: secondsSinceEpoch_def calendar_eval)

lemma shiftDays_examples:
  "shiftDays dt 0 = dt" "shiftDays dt 1 = nextDay dt" "shiftDays dt (- 1) = prevDay dt"
  by (simp_all add: shiftDays_def)

lemma paris_steps:
  "LocalTime paris2024 ((2024, 3, 15), 0) = ((2024, 3, 15), 3600)"
  "UTC paris2024 ((2024, 4, 15), 3600) = ((2024, 4, 14), 82800)"
  by (simp_all add: LocalTime_def UTC_def paris2024_def seconds_examples addSeconds_def
      shiftDays_examples prevDay_def)

lemma fixed_steps:
  "LocalTime (fixedOffset (- 18000)) ((2024, 3, 1), 0) = ((2024, 2, 29), 68400)"
  "UTC (fixedOffset (- 18000)) ((2024, 3, 29), 68400) = ((2024, 3, 30), 0)"
  by (simp_all add: LocalTime_def UTC_def fixedOffset_def addSeconds_def
      shiftDays_examples prevDay_def nextDay_def daysInMonth_def isLeapYear_def)

lemma setMonth_examples:
  "setMonth (2024, 3, 15) 3 = (2024, 4, 15)"
  "setMonth (2024, 2, 29) 2 = (2024, 3, 29)"
  "setMonth (2024, 3, 1) 3 = (2024, 4, 1)"
  by (simp_all add: setMonth_def daysInMonth_def isLeapYear_def)

lemma month_examples:
  "toDouble 3 = Finite 3" "toDouble 2 = Finite 2"
  "integerPart 3 = 3" "integerPart 2 = 2"
  using toDouble_eq [where q = "- 51" and x = 3 and m = 6755399441055744]
    toDouble_eq [where q = "- 51" and x = 2 and m = 4503599627370496]
  by (simp_all add: integerPart_def pow2_def roundHalfEven_def)

text \<open>
  Claim C2: the end date is the start date advanced by the coverage in calendar months.
  The form does not follow it outside UTC: it reads the start date as midnight UTC, moves
  the month in the browser's local time and takes the UTC date of the result. In
  Europe/Paris, one month from 15 March 2024 gives 14 April 2024, since local time is one
  hour ahead of UTC in March and two in April; five hours behind UTC, one month from
  1 March 2024 gives 30 March 2024, since the local date is still 29 February. With UTC
  as local time the same form gives 15 April 2024, one calendar month after the start.
\<close>

theorem endDate_off_by_one_outside_utc:
  "endDateEffect paris2024 formMarch = Inr (formMarch\<lparr>f_endDate := Some (2024, 4, 14)\<rparr>)
   \<and> endDateEffect (fixedOffset (- 18000)) (formMarch\<lparr>f_startDate := DateString (2024, 3, 1)\<rparr>)
       = Inr (formMarch\<lparr>f_startDate := DateString (2024, 3, 1),
                f_endDate := Some (2024, 3, 30)\<rparr>)
   \<and> endDateEffect utc formMarch = Inr (formMarch\<lparr>f_endDate := Some (2024, 4, 15)\<rparr>)
   \<and> setMonth (2024, 3, 15) (getMonth (2024, 3, 15) + 1) = (2024, 4, 15)
   \<and> setMonth (2024, 3, 1) (getMonth (2024, 3, 1) + 1) = (2024, 4, 1)"
proof -
  have "setMonth (2024, 3, 15) (getMonth (2024, 3, 15) + 1) = (2024, 4, 15)"
    and "setMonth (2024, 3, 1) (getMonth (2024, 3, 1) + 1) = (2024, 4, 1)"
    by (simp_all add: getMonth_def setMonth_examples)
  moreover have "endDateEffect paris2024 formMarch
      = Inr (formMarch\<lparr>f_endDate := Some (2024, 4, 14)\<rparr>)"
    by (simp add: endDateEffect_def formMarch_def paris_steps getMonth_def month_examples
        setMonth_examples seconds_examples)
  moreover have "endDateEffect (fixedOffset (- 18000))
        (formMarch\<lparr>f_startDate := DateString (2024, 3, 1)\<rparr>)
       = Inr (formMarch\<lparr>f_startDate := DateString (2024, 3, 1),
                f_endDate := Some (2024, 3, 30)\<rparr>)"
    by (simp add: endDateEffect_def formMarch_def fixed_steps getMonth_def month_examples
        setMonth_examples seconds_examples)
  moreover have "endDateEffect utc formMarch
      = Inr (formMarch\<lparr>f_endDate := Some (2024, 4, 15)\<rparr>)"
    by (simp add: endDateEffect_def formMarch_def LocalTime_utc UTC_utc getMonth_def month_examples
        setMonth_examples seconds_examples)
  ultimately show ?thesis
    by simp
qed

end
